theory Spec2Isabelle
  imports Complex_Main
begin

section \<open>Python values, exceptions and the process state\<close>

text \<open>
  The notebook \<^verbatim>\<open>polynomial.ipynb\<close> defines two functions, \<^verbatim>\<open>pol_calc\<close> and
  \<^verbatim>\<open>solve_degree_n\<close>, on top of numpy, cvxpy and the GLPK solver. The exceptions
  that the calls made by these two functions can raise are values of \<open>py_error\<close>.
  Floating-point numbers are modelled as reals.
\<close>

datatype py_error = TypeError | ValueError | IndexError | SolverError

text \<open>
  The argument \<^verbatim>\<open>n_sample\<close> is a Python number: the driver passes the int \<^verbatim>\<open>5000\<close>,
  the default of the signature is the float literal \<^verbatim>\<open>1e4\<close>.
\<close>

datatype pynum = PyInt int | PyFloat real

definition n_sample_default :: pynum where
  "n_sample_default = PyFloat 10000"

definition verbose_default :: bool where
  "verbose_default = True"

text \<open>
  The state of numpy's global generator is the sequence of raw variates of \<open>[0, 1)\<close>
  that it delivers next: entry \<open>i\<close> is the \<open>i\<close>-th draw to come. The seeding
  algorithm (which sequence a seed starts) belongs to numpy and is a parameter.
\<close>

type_synonym rng = "nat \<Rightarrow> real"

datatype status = optimal | infeasible | unbounded | other_status

datatype pyfloat = Finite real | PosInf | NegInf

datatype printed = PrintStatus status | PrintValue pyfloat

record world =
  random_state :: rng
  stdout :: "printed list"

text \<open>\<^verbatim>\<open>np.random.seed(s)\<close>: the global generator restarts at the sequence of seed \<open>s\<close>.\<close>

definition np_random_seed :: "(nat \<Rightarrow> rng) \<Rightarrow> nat \<Rightarrow> world \<Rightarrow> world" where
  "np_random_seed mt s w = w\<lparr>random_state := mt s\<rparr>"

text \<open>
  \<^verbatim>\<open>np.random.uniform(low, high, size)\<close>: a float \<open>size\<close> raises TypeError, a negative
  one ValueError; otherwise \<open>size\<close> variates are taken from the generator, each mapped
  to \<open>low + (high - low) * u\<close>, and the generator has advanced by \<open>size\<close> draws.
\<close>

definition np_random_uniform ::
  "real \<Rightarrow> real \<Rightarrow> pynum \<Rightarrow> rng \<Rightarrow> py_error + (real list \<times> rng)" where
  "np_random_uniform low high sz g =
     (case sz of
        PyFloat _ \<Rightarrow> Inl TypeError
      | PyInt k \<Rightarrow>
          if k < 0 then Inl ValueError
          else Inr (map (\<lambda>i. low + (high - low) * g i) [0..<nat k],
                    \<lambda>i. g (i + nat k)))"

section \<open>The cvxpy expressions the notebook builds\<close>

text \<open>
  The notebook pins no version of cvxpy, and the versions differ on empty shapes: the
  older ones refuse a dimension of \<open>0\<close> with ValueError, the newer ones accept it.
  Which of the two the process runs on is a parameter of every function that reaches
  cvxpy.
\<close>

datatype cvxpy = Refuses_empty | Accepts_empty

text \<open>
  \<^verbatim>\<open>cp.Variable(k)\<close> is a vector unknown of \<open>k\<close> entries. Every cvxpy refuses a
  negative dimension with ValueError.
\<close>

datatype variable = Variable nat

fun size_of :: "variable \<Rightarrow> nat" where
  "size_of (Variable k) = k"

definition cp_Variable :: "cvxpy \<Rightarrow> int \<Rightarrow> py_error + variable" where
  "cp_Variable cvx k =
     (if k < 0 \<or> (k = 0 \<and> cvx = Refuses_empty) then Inl ValueError
      else Inr (Variable (nat k)))"

text \<open>
  Scalar expression trees: a constant, the entry \<open>c[i]\<close> of a variable, the product of an
  expression with one entry of a constant array, and a sum.
\<close>

datatype expression =
    Constant real
  | Index variable nat
  | Mul expression real
  | Add expression expression

text \<open>
  What \<^verbatim>\<open>pol_calc\<close> computes with: the Python int \<open>0\<close> that \<^verbatim>\<open>sum\<close> starts from, and
  cvxpy expressions of shape \<open>(m,)\<close>, kept entry by entry.
\<close>

datatype pyexpr = PyZero | Vector "expression list"

text \<open>
  \<open>c[i]\<close>: a negative index counts from the end, an index out of range raises
  IndexError.
\<close>

definition index :: "variable \<Rightarrow> int \<Rightarrow> py_error + expression" where
  "index c i =
     (let k = int (size_of c); j = (if i < 0 then i + k else i)
      in if 0 \<le> j \<and> j < k then Inr (Index c (nat j)) else Inl IndexError)"

text \<open>\<open>x ** i\<close> on a numpy array is entrywise.\<close>

definition power_array :: "real list \<Rightarrow> nat \<Rightarrow> real list" where
  "power_array x i = map (\<lambda>v. v ^ i) x"

text \<open>
  \<open>e * arr\<close> for a scalar expression and a numpy array: the array becomes a cvxpy
  constant and the product has the shape of the array. For the empty array (shape
  \<open>(0,)\<close>) a cvxpy that refuses empty shapes raises ValueError.
\<close>

definition mul_array :: "cvxpy \<Rightarrow> expression \<Rightarrow> real list \<Rightarrow> py_error + pyexpr" where
  "mul_array cvx e arr =
     (if arr = [] \<and> cvx = Refuses_empty then Inl ValueError
      else Inr (Vector (map (\<lambda>a. Mul e a) arr)))"

text \<open>
  \<open>a + b\<close>: the int \<open>0\<close> becomes a constant and is broadcast, two vectors need the
  same length.
\<close>

fun add_expr :: "pyexpr \<Rightarrow> pyexpr \<Rightarrow> py_error + pyexpr" where
  "add_expr PyZero PyZero = Inr PyZero"
| "add_expr PyZero (Vector bs) = Inr (Vector (map (\<lambda>b. Add (Constant 0) b) bs))"
| "add_expr (Vector as) PyZero = Inr (Vector (map (\<lambda>a. Add a (Constant 0)) as))"
| "add_expr (Vector as) (Vector bs) =
     (if length as = length bs then Inr (Vector (map2 Add as bs)) else Inl ValueError)"

text \<open>
  Python's \<^verbatim>\<open>sum\<close> over a generator: the accumulator starts at \<open>0\<close>, each item is
  computed and then added, and the first exception ends the loop.
\<close>

fun py_sum :: "(py_error + pyexpr) list \<Rightarrow> pyexpr \<Rightarrow> py_error + pyexpr" where
  "py_sum [] acc = Inr acc"
| "py_sum (t # ts) acc =
     (case t of
        Inl e \<Rightarrow> Inl e
      | Inr v \<Rightarrow> (case add_expr acc v of Inl e \<Rightarrow> Inl e | Inr acc' \<Rightarrow> py_sum ts acc'))"

text \<open>
  \<^verbatim>\<open>def pol_calc(c, x): return sum(c[i] * (x**i) for i in range(c.size))\<close>
\<close>

definition pol_term :: "cvxpy \<Rightarrow> variable \<Rightarrow> real list \<Rightarrow> nat \<Rightarrow> py_error + pyexpr" where
  "pol_term cvx c x i =
     (case index c (int i) of
        Inl e \<Rightarrow> Inl e
      | Inr ci \<Rightarrow> mul_array cvx ci (power_array x i))"

definition pol_calc :: "cvxpy \<Rightarrow> variable \<Rightarrow> real list \<Rightarrow> py_error + pyexpr" where
  "pol_calc cvx c x = py_sum (map (pol_term cvx c x) [0..<size_of c]) PyZero"

text \<open>
  \<^verbatim>\<open>for px_i in pol_x\<close>: an expression of shape \<open>(m,)\<close> yields its \<open>m\<close> entries; the
  int \<open>0\<close> (what \<^verbatim>\<open>pol_calc\<close> returns for a variable without entries) is not iterable
  and raises TypeError.
\<close>

fun entries :: "pyexpr \<Rightarrow> py_error + expression list" where
  "entries (Vector es) = Inr es"
| "entries PyZero = Inl TypeError"

section \<open>The linear program and the solver\<close>

text \<open>\<open>a <= b\<close> and \<open>b >= a\<close> both build the inequality with \<open>a\<close> on the left.\<close>

datatype constraint = Inequality expression expression

datatype objective = Maximize expression

record problem =
  objective :: objective
  constraints :: "constraint list"

text \<open>
  What \<^verbatim>\<open>problem.solve\<close> leaves behind: \<^verbatim>\<open>problem.status\<close>, \<^verbatim>\<open>problem.value\<close> and
  the \<^verbatim>\<open>value\<close> of the variable (None when there is no solution).
\<close>

record solution =
  sol_status :: status
  sol_value :: pyfloat
  var_value :: "real list option"

text \<open>Lines 50 to 53 of the notebook: the problem handed to the solver.\<close>

definition build_problem :: "cvxpy \<Rightarrow> variable \<Rightarrow> real list \<Rightarrow> py_error + problem" where
  "build_problem cvx C x =
     (case pol_calc cvx C x of
        Inl e \<Rightarrow> Inl e
      | Inr pol_x \<Rightarrow>
          (case entries pol_x of
             Inl e \<Rightarrow> Inl e
           | Inr pxs \<Rightarrow>
               let constraints =
                     map (\<lambda>px_i. Inequality (Constant (- 1)) px_i) pxs @
                     map (\<lambda>px_i. Inequality px_i (Constant 1)) pxs
               in (case index C 1 of
                     Inl e \<Rightarrow> Inl e
                   | Inr c1 \<Rightarrow> Inr \<lparr>objective = Maximize c1, constraints = constraints\<rparr>)))"

text \<open>
  Lines 48 and 49: the variable of \<open>n + 1\<close> entries is created, then the points are drawn
  from the global generator, which advances. An exception leaves the state as it was.
\<close>

definition draw_points ::
  "cvxpy \<Rightarrow> int \<Rightarrow> pynum \<Rightarrow> world \<Rightarrow> (py_error + variable \<times> real list) \<times> world" where
  "draw_points cvx n n_sample w =
     (case cp_Variable cvx (n + 1) of
        Inl e \<Rightarrow> (Inl e, w)
      | Inr C \<Rightarrow>
          (case np_random_uniform (- 1) 1 n_sample (random_state w) of
             Inl e \<Rightarrow> (Inl e, w)
           | Inr (x, g) \<Rightarrow> (Inr (C, x), w\<lparr>random_state := g\<rparr>)))"

text \<open>
  \<^verbatim>\<open>solve_degree_n(n, n_sample=1e4, verbose=True)\<close>. The solver is the opaque
  collaborator \<open>glpk\<close>; it may raise. The result is the returned value \<^verbatim>\<open>C.value\<close>
  (or the exception) and the process state after the call.
\<close>

definition solve_degree_n ::
  "cvxpy \<Rightarrow> (problem \<Rightarrow> py_error + solution) \<Rightarrow> int \<Rightarrow> pynum \<Rightarrow> bool \<Rightarrow> world
     \<Rightarrow> (py_error + real list option) \<times> world" where
  "solve_degree_n cvx glpk n n_sample verbose w =
     (case draw_points cvx n n_sample w of
        (Inl e, w1) \<Rightarrow> (Inl e, w1)
      | (Inr (C, x), w1) \<Rightarrow>
          (case build_problem cvx C x of
             Inl e \<Rightarrow> (Inl e, w1)
           | Inr problem \<Rightarrow>
               (case glpk problem of
                  Inl e \<Rightarrow> (Inl e, w1)
                | Inr sol \<Rightarrow>
                    let w2 = (if verbose
                              then w1\<lparr>stdout := stdout w1 @
                                     [PrintStatus (sol_status sol), PrintValue (sol_value sol)]\<rparr>
                              else w1)
                    in (Inr (var_value sol), w2))))"

text \<open>
  A process starts with an empty output and a generator in a state of the system's
  choice. Cell 1 of the notebook runs once per process, before any call, and seeds it.
\<close>

definition fresh_process :: "rng \<Rightarrow> world" where
  "fresh_process entropy = \<lparr>random_state = entropy, stdout = []\<rparr>"

definition module_init :: "(nat \<Rightarrow> rng) \<Rightarrow> world \<Rightarrow> world" where
  "module_init mt w = np_random_seed mt 1234 w"

section \<open>The meaning of a problem\<close>

text \<open>The value of an expression when the variable holds the vector \<open>cs\<close>.\<close>

fun eval :: "real list \<Rightarrow> expression \<Rightarrow> real" where
  "eval cs (Constant a) = a"
| "eval cs (Index c i) = cs ! i"
| "eval cs (Mul e a) = eval cs e * a"
| "eval cs (Add e f) = eval cs e + eval cs f"

fun satisfies :: "real list \<Rightarrow> constraint \<Rightarrow> bool" where
  "satisfies cs (Inequality l r) = (eval cs l \<le> eval cs r)"

definition feasible :: "problem \<Rightarrow> real list \<Rightarrow> bool" where
  "feasible P cs = list_all (satisfies cs) (constraints P)"

fun objective_at :: "problem \<Rightarrow> real list \<Rightarrow> real" where
  "objective_at P cs = (case objective P of Maximize e \<Rightarrow> eval cs e)"

text \<open>
  What the solver's answer has to mean for a problem over a variable of \<open>k\<close> entries:
  an optimal answer carries a feasible vector that no feasible vector beats and reports
  its objective; infeasible means that no vector is feasible; unbounded that the
  objective has no upper bound on the feasible vectors.
\<close>

definition is_optimal :: "nat \<Rightarrow> problem \<Rightarrow> real list \<Rightarrow> bool" where
  "is_optimal k P cs \<longleftrightarrow>
     length cs = k \<and> feasible P cs \<and>
     (\<forall>ds. length ds = k \<longrightarrow> feasible P ds \<longrightarrow> objective_at P ds \<le> objective_at P cs)"

definition sound_report :: "nat \<Rightarrow> problem \<Rightarrow> solution \<Rightarrow> bool" where
  "sound_report k P sol =
     (case sol_status sol of
        optimal \<Rightarrow>
          (\<exists>cs. var_value sol = Some cs \<and> is_optimal k P cs \<and>
                sol_value sol = Finite (objective_at P cs))
      | infeasible \<Rightarrow> (\<forall>cs. length cs = k \<longrightarrow> \<not> feasible P cs)
      | unbounded \<Rightarrow> (\<forall>b. \<exists>cs. length cs = k \<and> feasible P cs \<and> b < objective_at P cs)
      | other_status \<Rightarrow> True)"

definition sound_solver :: "(problem \<Rightarrow> py_error + solution) \<Rightarrow> bool" where
  "sound_solver glpk \<longleftrightarrow>
     (\<forall>cvx C x P sol. build_problem cvx C x = Inr P \<longrightarrow> glpk P = Inr sol \<longrightarrow>
                      sound_report (size_of C) P sol)"

text \<open>
  What a verbose call shows: \<open>achieves cvx glpk n m w st v\<close> when the call with degree
  \<open>n\<close> and \<open>m\<close> samples, made in state \<open>w\<close>, prints the status \<open>st\<close> and then the
  objective value \<open>v\<close>.
\<close>

definition achieves ::
  "cvxpy \<Rightarrow> (problem \<Rightarrow> py_error + solution) \<Rightarrow> int \<Rightarrow> int \<Rightarrow> world \<Rightarrow> status \<Rightarrow> pyfloat
     \<Rightarrow> bool" where
  "achieves cvx glpk n m w st v \<longleftrightarrow>
     stdout (snd (solve_degree_n cvx glpk n (PyInt m) True w)) =
       stdout w @ [PrintStatus st, PrintValue v]"

section \<open>Closed forms\<close>

text \<open>The entry of \<^verbatim>\<open>pol_x\<close> for the point \<open>v\<close>, and the problem built from the points.\<close>

definition pol_entry :: "variable \<Rightarrow> real \<Rightarrow> expression" where
  "pol_entry c v =
     foldl (\<lambda>e i. Add e (Mul (Index c i) (v ^ i))) (Constant 0) [0..<size_of c]"

definition sampled_problem :: "variable \<Rightarrow> real list \<Rightarrow> problem" where
  "sampled_problem C x =
     \<lparr>objective = Maximize (Index C 1),
      constraints = map (\<lambda>v. Inequality (Constant (- 1)) (pol_entry C v)) x @
                    map (\<lambda>v. Inequality (pol_entry C v) (Constant 1)) x\<rparr>"

text \<open>The entries of the variables that an expression and a problem mention.\<close>

fun leaves :: "expression \<Rightarrow> (variable \<times> nat) set" where
  "leaves (Constant a) = {}"
| "leaves (Index c i) = {(c, i)}"
| "leaves (Mul e a) = leaves e"
| "leaves (Add e f) = leaves e \<union> leaves f"

fun constraint_leaves :: "constraint \<Rightarrow> (variable \<times> nat) set" where
  "constraint_leaves (Inequality l r) = leaves l \<union> leaves r"

definition unknowns :: "problem \<Rightarrow> (variable \<times> nat) set" where
  "unknowns P =
     (case objective P of Maximize e \<Rightarrow> leaves e) \<union>
     (\<Union>c \<in> set (constraints P). constraint_leaves c)"

section \<open>A generator and a solver to run the definitions on\<close>

text \<open>
  A generator whose raw variates repeat \<open>3/4, 1/4, 0, 1/2\<close>, so that the points drawn
  are \<open>1/2, -1/2, -1, 0\<close>, and a solver that knows the answers to three problems and
  raises on every other one.
\<close>

definition demo_rng :: rng where
  "demo_rng i = [3 / 4, 1 / 4, 0, 1 / 2] ! (i mod 4)"

definition demo_mt :: "nat \<Rightarrow> rng" where
  "demo_mt s = demo_rng"

definition demo_world :: world where
  "demo_world = module_init demo_mt (fresh_process (\<lambda>i. 0))"

definition demo_glpk :: "problem \<Rightarrow> py_error + solution" where
  "demo_glpk P =
     (if P = sampled_problem (Variable 2) [1 / 2, - (1 / 2)]
      then Inr \<lparr>sol_status = optimal, sol_value = Finite 2, var_value = Some [0, 2]\<rparr>
      else if P = sampled_problem (Variable 2) [1 / 2, - (1 / 2), - 1, 0]
      then Inr \<lparr>sol_status = optimal, sol_value = Finite (4 / 3),
                var_value = Some [1 / 3, 4 / 3]\<rparr>
      else if P = sampled_problem (Variable 4) [1 / 2, - (1 / 2), - 1, 0]
      then Inr \<lparr>sol_status = optimal, sol_value = Finite 4,
                var_value = Some [1, 4, - 4, - 8]\<rparr>
      else Inl SolverError)"

text \<open>
  A solver that answers every problem with the same vector as the first answer above,
  but with another status and another objective value.
\<close>

definition demo_glpk_inaccurate :: "problem \<Rightarrow> py_error + solution" where
  "demo_glpk_inaccurate P =
     Inr \<lparr>sol_status = other_status, sol_value = Finite 0, var_value = Some [0, 2]\<rparr>"

text \<open>A solver that reports every problem as unbounded.\<close>

definition demo_glpk_unbounded :: "problem \<Rightarrow> py_error + solution" where
  "demo_glpk_unbounded P =
     Inr \<lparr>sol_status = unbounded, sol_value = PosInf, var_value = None\<rparr>"

section \<open>How the calls unfold\<close>

lemma index_in_range: "i < size_of c \<Longrightarrow> index c (int i) = Inr (Index c i)"
  by (simp add: index_def Let_def)

lemma pol_term_in_range:
  "i < size_of c \<Longrightarrow> x \<noteq> [] \<or> cvx = Accepts_empty \<Longrightarrow>
   pol_term cvx c x i = Inr (Vector (map (\<lambda>v. Mul (Index c i) (v ^ i)) x))"
  by (auto simp: pol_term_def index_in_range mul_array_def power_array_def)

lemma map2_step:
  "length es = length x \<Longrightarrow>
   map2 f (map2 Add es (map g x)) x = map2 (\<lambda>e v. f (Add e (g v)) v) es x"
  by (rule nth_equalityI) simp_all

lemma py_sum_vector:
  "length es = length x \<Longrightarrow> x \<noteq> [] \<or> cvx = Accepts_empty \<Longrightarrow>
   \<forall>i\<in>set js. i < size_of c \<Longrightarrow>
   py_sum (map (pol_term cvx c x) js) (Vector es) =
     Inr (Vector (map2 (\<lambda>e v. foldl (\<lambda>e i. Add e (Mul (Index c i) (v ^ i))) e js) es x))"
proof (induction js arbitrary: es)
  case Nil
  have "map2 (\<lambda>e v. e) es x = es"
    using Nil.prems(1) by (intro nth_equalityI) simp_all
  then show ?case by simp
next
  case (Cons i js)
  have t: "pol_term cvx c x i = Inr (Vector (map (\<lambda>v. Mul (Index c i) (v ^ i)) x))"
    using Cons.prems by (simp add: pol_term_in_range)
  have len: "length (map2 Add es (map (\<lambda>v. Mul (Index c i) (v ^ i)) x)) = length x"
    using Cons.prems by simp
  have rest: "\<forall>i\<in>set js. i < size_of c" using Cons.prems by simp
  show ?case
    using Cons.IH[OF len Cons.prems(2) rest] Cons.prems(1)
    by (simp add: t map2_step)
qed

lemma pol_calc_vector:
  assumes "0 < size_of c" and "x \<noteq> [] \<or> cvx = Accepts_empty"
  shows "pol_calc cvx c x = Inr (Vector (map (pol_entry c) x))"
proof -
  obtain k where k: "size_of c = Suc k" using assms(1) by (cases "size_of c") auto
  have up: "[0..<Suc k] = 0 # [1..<Suc k]" by (simp add: upt_conv_Cons)
  have t0: "pol_term cvx c x 0 = Inr (Vector (map (\<lambda>v. Mul (Index c 0) (v ^ 0)) x))"
    using assms by (rule pol_term_in_range)
  let ?es = "map (\<lambda>v. Add (Constant 0) (Mul (Index c 0) (v ^ 0))) x"
  have "py_sum (map (pol_term cvx c x) [1..<Suc k]) (Vector ?es) =
     Inr (Vector (map2 (\<lambda>e v. foldl (\<lambda>e i. Add e (Mul (Index c i) (v ^ i))) e [1..<Suc k]) ?es x))"
    by (rule py_sum_vector) (use assms k in auto)
  moreover have "map2 (\<lambda>e v. foldl (\<lambda>e i. Add e (Mul (Index c i) (v ^ i))) e [1..<Suc k]) ?es x
      = map (pol_entry c) x"
    by (rule nth_equalityI) (simp_all add: pol_entry_def k up del: upt_Suc)
  ultimately show ?thesis
    by (simp add: pol_calc_def k up t0 comp_def del: upt_Suc)
qed

lemma pol_calc_empty_points: "0 < size_of c \<Longrightarrow> pol_calc Refuses_empty c [] = Inl ValueError"
proof -
  assume "0 < size_of c"
  then obtain k where k: "size_of c = Suc k" by (cases "size_of c") auto
  have up: "[0..<Suc k] = 0 # [1..<Suc k]" by (simp add: upt_conv_Cons)
  have "pol_term Refuses_empty c [] 0 = Inl ValueError"
    by (simp add: pol_term_def index_def Let_def k mul_array_def power_array_def)
  then show ?thesis by (simp add: pol_calc_def k up del: upt_Suc)
qed

lemma pol_calc_no_entries: "size_of c = 0 \<Longrightarrow> pol_calc cvx c x = Inr PyZero"
  by (simp add: pol_calc_def)

lemma index_one: "index C 1 = (if 2 \<le> size_of C then Inr (Index C 1) else Inl IndexError)"
  by (auto simp: index_def Let_def)

lemma build_problem_sampled:
  "2 \<le> size_of C \<Longrightarrow> x \<noteq> [] \<or> cvx = Accepts_empty \<Longrightarrow>
   build_problem cvx C x = Inr (sampled_problem C x)"
  by (simp add: build_problem_def pol_calc_vector index_one sampled_problem_def)

lemma build_problem_Inr:
  assumes "build_problem cvx C x = Inr P"
  shows "2 \<le> size_of C \<and> (x \<noteq> [] \<or> cvx = Accepts_empty) \<and> P = sampled_problem C x"
proof -
  have two: "2 \<le> size_of C"
    using assms by (auto simp: build_problem_def index_one Let_def split: sum.splits if_splits)
  have ne: "x \<noteq> [] \<or> cvx = Accepts_empty"
  proof (rule ccontr)
    assume "\<not> (x \<noteq> [] \<or> cvx = Accepts_empty)"
    then have "x = []" and "cvx = Refuses_empty" by (simp, cases cvx) auto
    with two have "pol_calc cvx C x = Inl ValueError" by (simp add: pol_calc_empty_points)
    with assms show False by (simp add: build_problem_def)
  qed
  with two assms show ?thesis by (simp add: build_problem_sampled)
qed

lemma eval_foldl_terms:
  "eval cs (foldl (\<lambda>e i. Add e (Mul (Index c i) (v ^ i))) a js) =
     eval cs a + (\<Sum>i\<leftarrow>js. cs ! i * v ^ i)"
  by (induction js arbitrary: a) (simp_all add: algebra_simps)

lemma eval_pol_entry:
  "eval cs (pol_entry c v) = (\<Sum>i<size_of c. cs ! i * v ^ i)"
  by (simp add: pol_entry_def eval_foldl_terms interv_sum_list_conv_sum_set_nat atLeast0LessThan)

lemma leaves_foldl_terms:
  "leaves (foldl (\<lambda>e i. Add e (Mul (Index c i) (v ^ i))) a js) =
     leaves a \<union> (\<lambda>i. (c, i)) ` set js"
  by (induction js arbitrary: a) auto

lemma leaves_pol_entry: "leaves (pol_entry c v) = (\<lambda>i. (c, i)) ` {..<size_of c}"
  by (simp add: pol_entry_def leaves_foldl_terms atLeast0LessThan)

lemma unknowns_sampled_problem:
  "2 \<le> size_of C \<Longrightarrow> x \<noteq> [] \<Longrightarrow> unknowns (sampled_problem C x) = (\<lambda>i. (C, i)) ` {..<size_of C}"
  by (auto simp: unknowns_def sampled_problem_def leaves_pol_entry)

lemma draw_points_int:
  "0 \<le> n \<Longrightarrow> 0 \<le> m \<Longrightarrow>
   draw_points cvx n (PyInt m) w =
     (Inr (Variable (nat (n + 1)), map (\<lambda>i. - 1 + 2 * random_state w i) [0..<nat m]),
      w\<lparr>random_state := \<lambda>i. random_state w (i + nat m)\<rparr>)"
  by (simp add: draw_points_def cp_Variable_def np_random_uniform_def)

lemma solve_degree_n_run:
  assumes "draw_points cvx n n_sample w = (Inr (C, x), w1)" and "build_problem cvx C x = Inr P"
  shows "solve_degree_n cvx glpk n n_sample verbose w =
     (case glpk P of
        Inl e \<Rightarrow> (Inl e, w1)
      | Inr sol \<Rightarrow>
          (Inr (var_value sol),
           w1\<lparr>stdout := stdout w1 @
              (if verbose then [PrintStatus (sol_status sol), PrintValue (sol_value sol)]
               else [])\<rparr>))"
  using assms by (simp add: solve_degree_n_def Let_def split: sum.splits)


section \<open>The polynomial helper\<close>

text \<open>
  Claim C3. For a variable \<open>c\<close> of \<open>n + 1\<close> entries and points \<open>x\<close> (at least one),
  \<^verbatim>\<open>pol_calc\<close> returns one expression per point; when the variable holds the
  coefficient vector \<open>cs\<close>, the expression of the point \<open>x\<^sub>j\<close> has the value
  \<open>\<Sum>i\<le>n. cs\<^sub>i * x\<^sub>j ^ i\<close>, and it is linear in \<open>cs\<close>.
\<close>

theorem pol_calc_polynomial:
  assumes "size_of c = Suc n" and "x \<noteq> []"
  shows "\<exists>es. pol_calc cvx c x = Inr (Vector es) \<and> length es = length x \<and>
           (\<forall>j<length x. \<forall>cs. length cs = Suc n \<longrightarrow>
              eval cs (es ! j) = (\<Sum>i\<le>n. cs ! i * (x ! j) ^ i)) \<and>
           (\<forall>j<length x. \<forall>a b us vs. length us = Suc n \<longrightarrow> length vs = Suc n \<longrightarrow>
              eval (map2 (\<lambda>u v. a * u + b * v) us vs) (es ! j) =
                a * eval us (es ! j) + b * eval vs (es ! j))"
proof -
  have calc: "pol_calc cvx c x = Inr (Vector (map (pol_entry c) x))"
    using assms by (simp add: pol_calc_vector)
  have val: "eval cs (pol_entry c v) = (\<Sum>i\<le>n. cs ! i * v ^ i)" for cs v
    by (simp add: eval_pol_entry assms(1) lessThan_Suc_atMost)
  have lin: "eval (map2 (\<lambda>u v. a * u + b * v) us vs) (pol_entry c v) =
               a * eval us (pol_entry c v) + b * eval vs (pol_entry c v)"
    if "length us = Suc n" "length vs = Suc n" for a b us vs v
  proof -
    have "(\<Sum>i\<le>n. map2 (\<lambda>u v. a * u + b * v) us vs ! i * v ^ i) =
          (\<Sum>i\<le>n. a * (us ! i * v ^ i) + b * (vs ! i * v ^ i))"
      using that by (intro sum.cong) (auto simp: algebra_simps)
    then show ?thesis
      by (simp add: val sum.distrib sum_distrib_left)
  qed
  show ?thesis
    using calc val lin by simp
qed

text \<open>At the points \<open>1/2, -1/2\<close> the polynomial \<open>2 x\<close> takes the values \<open>1, -1\<close>.\<close>

theorem pol_calc_polynomial_witness:
  "\<exists>es. pol_calc Refuses_empty (Variable 2) [1 / 2, - (1 / 2)] = Inr (Vector es) \<and>
        length es = 2 \<and>
        eval [0, 2] (es ! 0) = 1 \<and> eval [0, 2] (es ! 1) = - 1"
proof -
  obtain es where es: "pol_calc Refuses_empty (Variable 2) [1 / 2, - (1 / 2)] = Inr (Vector es)"
      "length es = length [1 / 2, - (1 / 2) :: real]"
      "\<forall>j<length [1 / 2, - (1 / 2) :: real]. \<forall>cs. length cs = Suc 1 \<longrightarrow>
              eval cs (es ! j) = (\<Sum>i\<le>1. cs ! i * ([1 / 2, - (1 / 2)] ! j) ^ i)"
    using pol_calc_polynomial
      [where c = "Variable 2" and n = 1 and x = "[1 / 2, - (1 / 2)]" and cvx = Refuses_empty]
    by auto
  from es(3) have "eval [0, 2] (es ! 0) = 1" "eval [0, 2] (es ! 1) = - 1"
    by simp_all
  with es(1,2) show ?thesis by simp
qed

section \<open>Feasible and optimal vectors of the sampled problem\<close>

lemma feasible_sampled_problem:
  "feasible (sampled_problem C x) cs \<longleftrightarrow>
     (\<forall>v\<in>set x. - 1 \<le> eval cs (pol_entry C v) \<and> eval cs (pol_entry C v) \<le> 1)"
  by (simp add: feasible_def sampled_problem_def list.pred_map comp_def) (auto simp: list_all_iff)

lemma objective_at_sampled_problem: "objective_at (sampled_problem C x) cs = cs ! 1"
  by (simp add: sampled_problem_def)

lemma eval_pol_entry_2: "eval [a, b] (pol_entry (Variable 2) v) = a + b * v"
  by (simp add: eval_pol_entry lessThan_Suc numeral_2_eq_2)

lemma eval_pol_entry_4:
  "eval [a, b, c, d] (pol_entry (Variable 4) v) = a + b * v + c * v ^ 2 + d * v ^ 3"
  by (simp add: eval_pol_entry lessThan_Suc eval_nat_numeral)

lemma list2: "length ds = 2 \<Longrightarrow> \<exists>a b. ds = [a, b]"
  by (cases ds; cases "tl ds") auto

lemma list4: "length ds = 4 \<Longrightarrow> \<exists>a b c d. ds = [a, b, c, d]"
  by (auto simp: eval_nat_numeral length_Suc_conv)

text \<open>The optima of the three demonstration problems.\<close>

lemma demo_optimal_2_2:
  "is_optimal 2 (sampled_problem (Variable 2) [1 / 2, - (1 / 2)]) [0, 2]"
  unfolding is_optimal_def
proof (intro conjI allI impI)
  show "length [0, 2 :: real] = 2" by simp
  show "feasible (sampled_problem (Variable 2) [1 / 2, - (1 / 2)]) [0, 2]"
    by (simp add: feasible_sampled_problem eval_pol_entry_2)
  fix ds :: "real list"
  assume "length ds = 2" and f: "feasible (sampled_problem (Variable 2) [1 / 2, - (1 / 2)]) ds"
  then obtain a b where ds: "ds = [a, b]" using list2 by blast
  from f have "a + b * (1 / 2) \<le> 1" "- 1 \<le> a + b * (- (1 / 2))"
    by (simp_all add: ds feasible_sampled_problem eval_pol_entry_2)
  then have "b \<le> 2" by linarith
  then show "objective_at (sampled_problem (Variable 2) [1 / 2, - (1 / 2)]) ds
      \<le> objective_at (sampled_problem (Variable 2) [1 / 2, - (1 / 2)]) [0, 2]"
    by (simp add: objective_at_sampled_problem ds del: objective_at.simps)
qed

lemma demo_optimal_2_4:
  "is_optimal 2 (sampled_problem (Variable 2) [1 / 2, - (1 / 2), - 1, 0]) [1 / 3, 4 / 3]"
  unfolding is_optimal_def
proof (intro conjI allI impI)
  show "length [1 / 3, 4 / 3 :: real] = 2" by simp
  show "feasible (sampled_problem (Variable 2) [1 / 2, - (1 / 2), - 1, 0]) [1 / 3, 4 / 3]"
    by (simp add: feasible_sampled_problem eval_pol_entry_2)
  fix ds :: "real list"
  assume "length ds = 2"
    and f: "feasible (sampled_problem (Variable 2) [1 / 2, - (1 / 2), - 1, 0]) ds"
  then obtain a b where ds: "ds = [a, b]" using list2 by blast
  from f have "a + b * (1 / 2) \<le> 1" "- 1 \<le> a + b * (- 1)"
    by (simp_all add: ds feasible_sampled_problem eval_pol_entry_2)
  then have "b \<le> 4 / 3" by linarith
  then show "objective_at (sampled_problem (Variable 2) [1 / 2, - (1 / 2), - 1, 0]) ds
      \<le> objective_at (sampled_problem (Variable 2) [1 / 2, - (1 / 2), - 1, 0]) [1 / 3, 4 / 3]"
    by (simp add: objective_at_sampled_problem ds del: objective_at.simps)
qed

lemma demo_optimal_4_4:
  "is_optimal 4 (sampled_problem (Variable 4) [1 / 2, - (1 / 2), - 1, 0]) [1, 4, - 4, - 8]"
  unfolding is_optimal_def
proof (intro conjI allI impI)
  show "length [1, 4, - 4, - 8 :: real] = 4" by simp
  show "feasible (sampled_problem (Variable 4) [1 / 2, - (1 / 2), - 1, 0]) [1, 4, - 4, - 8]"
    by (simp add: feasible_sampled_problem eval_pol_entry_4 power2_eq_square power3_eq_cube)
  fix ds :: "real list"
  assume "length ds = 4"
    and f: "feasible (sampled_problem (Variable 4) [1 / 2, - (1 / 2), - 1, 0]) ds"
  then obtain a b c d where ds: "ds = [a, b, c, d]" using list4 by blast
  from f have "a + b * (1 / 2) + c * (1 / 4) + d * (1 / 8) \<le> 1"
      "- 1 \<le> a - b * (1 / 2) + c * (1 / 4) - d * (1 / 8)"
      "a - b + c - d \<le> 1" "a \<le> 1"
    by (simp_all add: ds feasible_sampled_problem eval_pol_entry_4 power2_eq_square power3_eq_cube)
  then have "b \<le> 4" by linarith
  then show "objective_at (sampled_problem (Variable 4) [1 / 2, - (1 / 2), - 1, 0]) ds
      \<le> objective_at (sampled_problem (Variable 4) [1 / 2, - (1 / 2), - 1, 0]) [1, 4, - 4, - 8]"
    by (simp add: objective_at_sampled_problem ds del: objective_at.simps)
qed

lemma sampled_problem_variable:
  "sampled_problem C x = sampled_problem D y \<Longrightarrow> C = D"
  by (simp add: sampled_problem_def)

lemma demo_glpk_sound: "sound_solver demo_glpk"
  unfolding sound_solver_def
proof (intro allI impI)
  fix cvx C x P sol
  assume b: "build_problem cvx C x = Inr P" and g: "demo_glpk P = Inr sol"
  from b have P: "P = sampled_problem C x" by (simp add: build_problem_Inr)
  let ?A = "sampled_problem (Variable 2) [1 / 2, - (1 / 2)]"
  let ?B = "sampled_problem (Variable 2) [1 / 2, - (1 / 2), - 1, 0]"
  let ?D = "sampled_problem (Variable 4) [1 / 2, - (1 / 2), - 1, 0]"
  consider (a) "P = ?A" "sol = \<lparr>sol_status = optimal, sol_value = Finite 2, var_value = Some [0, 2]\<rparr>"
    | (b) "P = ?B" "sol = \<lparr>sol_status = optimal, sol_value = Finite (4 / 3),
                var_value = Some [1 / 3, 4 / 3]\<rparr>"
    | (d) "P = ?D" "sol = \<lparr>sol_status = optimal, sol_value = Finite 4,
                var_value = Some [1, 4, - 4, - 8]\<rparr>"
    using g unfolding demo_glpk_def by (auto split: if_splits)
  then show "sound_report (size_of C) P sol"
  proof cases
    case a
    then have "C = Variable 2" using P sampled_problem_variable by metis
    then show ?thesis
      using demo_optimal_2_2 a
      by (simp add: sound_report_def objective_at_sampled_problem del: objective_at.simps)
  next
    case b
    then have "C = Variable 2" using P sampled_problem_variable by metis
    then show ?thesis
      using demo_optimal_2_4 b
      by (simp add: sound_report_def objective_at_sampled_problem del: objective_at.simps)
  next
    case d
    then have "C = Variable 4" using P sampled_problem_variable by metis
    then show ?thesis
      using demo_optimal_4_4 d
      by (simp add: sound_report_def objective_at_sampled_problem del: objective_at.simps)
  qed
qed

text \<open>A verbose call that printed has built its problem and got an answer from the solver.\<close>

lemma draw_points_stdout:
  "draw_points cvx n n_sample w = (r, w1) \<Longrightarrow> stdout w1 = stdout w"
  by (auto simp: draw_points_def split: sum.splits prod.splits)

lemma draw_points_Inr:
  assumes "draw_points cvx n n_sample w = (Inr (C, x), w1)"
  shows "C = Variable (nat (n + 1)) \<and>
         (\<exists>m. n_sample = PyInt m \<and> 0 \<le> m \<and>
              x = map (\<lambda>i. - 1 + 2 * random_state w i) [0..<nat m])"
  using assms
  by (auto simp: draw_points_def cp_Variable_def np_random_uniform_def
      split: sum.splits prod.splits if_splits pynum.splits)

lemma achieves_run:
  assumes "achieves cvx glpk n m w st v"
  shows "1 \<le> n \<and> 0 \<le> m \<and>
     (\<exists>sol. glpk (sampled_problem (Variable (nat (n + 1)))
                    (map (\<lambda>i. - 1 + 2 * random_state w i) [0..<nat m])) = Inr sol \<and>
            sol_status sol = st \<and> sol_value sol = v)"
proof -
  obtain r w1 where d: "draw_points cvx n (PyInt m) w = (r, w1)" by (cases "draw_points cvx n (PyInt m) w")
  then have out: "stdout w1 = stdout w" by (rule draw_points_stdout)
  have pr: "stdout (snd (solve_degree_n cvx glpk n (PyInt m) True w)) =
              stdout w @ [PrintStatus st, PrintValue v]"
    using assms by (simp add: achieves_def)
  show ?thesis
  proof (cases r)
    case (Inl e)
    with d out pr show ?thesis by (simp add: solve_degree_n_def)
  next
    case (Inr cx)
    obtain C x where cx: "cx = (C, x)" by (cases cx)
    from d Inr cx have d': "draw_points cvx n (PyInt m) w = (Inr (C, x), w1)" by simp
    from draw_points_Inr [OF d'] have C: "C = Variable (nat (n + 1))"
      and m0: "0 \<le> m" and x: "x = map (\<lambda>i. - 1 + 2 * random_state w i) [0..<nat m]"
      by auto
    show ?thesis
    proof (cases "build_problem cvx C x")
      case (Inl e)
      with d' out pr show ?thesis by (simp add: solve_degree_n_def)
    next
      case bp: (Inr P)
      from build_problem_Inr [OF bp] have two: "2 \<le> size_of C"
        and P: "P = sampled_problem C x" by auto
      have n1: "1 \<le> n" using two C by simp
      show ?thesis
      proof (cases "glpk P")
        case (Inl e)
        with d' bp out pr show ?thesis by (simp add: solve_degree_n_def)
      next
        case (Inr sol)
        with d' bp out pr have "sol_status sol = st \<and> sol_value sol = v"
          by (simp add: solve_degree_n_def)
        with Inr P C x n1 m0 show ?thesis by auto
      qed
    qed
  qed
qed

lemma achieves_demo:
  assumes "1 \<le> n" and "1 \<le> m"
    and "glpk (sampled_problem (Variable (nat (n + 1)))
                    (map (\<lambda>i. - 1 + 2 * random_state w i) [0..<nat m])) = Inr sol"
  shows "achieves cvx glpk n m w (sol_status sol) (sol_value sol)"
proof -
  have n0: "0 \<le> n" and m0: "0 \<le> m" using assms by simp_all
  let ?x = "map (\<lambda>i. - 1 + 2 * random_state w i) [0..<nat m]"
  have "build_problem cvx (Variable (nat (n + 1))) ?x = Inr (sampled_problem (Variable (nat (n + 1))) ?x)"
    using assms(1,2) by (intro build_problem_sampled) auto
  from solve_degree_n_run [OF draw_points_int [OF n0 m0] this, of glpk True] assms(3)
  show ?thesis by (simp add: achieves_def)
qed

lemma upt_2: "[0..<2] = [0, Suc 0]"
  by (simp add: upt_rec)

lemma upt_4: "[0..<4] = [0, Suc 0, 2, 3]"
  by (simp add: upt_rec)

lemma demo_world_rng: "random_state demo_world = demo_rng"
  by (simp add: demo_world_def module_init_def np_random_seed_def demo_mt_def)

lemma demo_rng_values:
  "demo_rng 0 = 3 / 4" "demo_rng (Suc 0) = 1 / 4" "demo_rng 2 = 0" "demo_rng 3 = 1 / 2"
  by (simp_all add: demo_rng_def)

lemma demo_points_2:
  "map (\<lambda>i. - 1 + 2 * random_state demo_world i) [0..<nat 2] = [1 / 2, - (1 / 2)]"
  by (simp add: upt_2 demo_world_rng demo_rng_values)

lemma demo_points_4:
  "map (\<lambda>i. - 1 + 2 * random_state demo_world i) [0..<nat 4] = [1 / 2, - (1 / 2), - 1, 0]"
  by (simp add: upt_4 demo_world_rng demo_rng_values)

lemma demo_problems_differ:
  "sampled_problem (Variable 2) [1 / 2, - (1 / 2), - 1, 0] \<noteq> sampled_problem (Variable 2) [1 / 2, - (1 / 2)]"
  "sampled_problem (Variable 4) [1 / 2, - (1 / 2), - 1, 0] \<noteq> sampled_problem (Variable 2) [1 / 2, - (1 / 2)]"
  "sampled_problem (Variable 4) [1 / 2, - (1 / 2), - 1, 0] \<noteq> sampled_problem (Variable 2) [1 / 2, - (1 / 2), - 1, 0]"
  by (simp_all add: sampled_problem_def)

lemma achieves_demo_1_2: "achieves cvx demo_glpk 1 2 demo_world optimal (Finite 2)"
proof -
  have "demo_glpk (sampled_problem (Variable (nat (1 + 1)))
          (map (\<lambda>i. - 1 + 2 * random_state demo_world i) [0..<nat 2])) =
        Inr \<lparr>sol_status = optimal, sol_value = Finite 2, var_value = Some [0, 2]\<rparr>"
    unfolding demo_points_2 by (simp add: demo_glpk_def)
  from achieves_demo [of _ _ demo_glpk demo_world, OF _ _ this] show ?thesis by simp
qed

lemma achieves_demo_1_4: "achieves cvx demo_glpk 1 4 demo_world optimal (Finite (4 / 3))"
proof -
  have "demo_glpk (sampled_problem (Variable (nat (1 + 1)))
          (map (\<lambda>i. - 1 + 2 * random_state demo_world i) [0..<nat 4])) =
        Inr \<lparr>sol_status = optimal, sol_value = Finite (4 / 3),
             var_value = Some [1 / 3, 4 / 3]\<rparr>"
    unfolding demo_points_4 by (simp add: demo_glpk_def demo_problems_differ)
  from achieves_demo [of _ _ demo_glpk demo_world, OF _ _ this] show ?thesis by simp
qed

lemma achieves_demo_3_4: "achieves cvx demo_glpk 3 4 demo_world optimal (Finite 4)"
proof -
  have "demo_glpk (sampled_problem (Variable (nat (3 + 1)))
          (map (\<lambda>i. - 1 + 2 * random_state demo_world i) [0..<nat 4])) =
        Inr \<lparr>sol_status = optimal, sol_value = Finite 4,
             var_value = Some [1, 4, - 4, - 8]\<rparr>"
    unfolding demo_points_4 by (simp add: demo_glpk_def demo_problems_differ)
  from achieves_demo [of _ _ demo_glpk demo_world, OF _ _ this] show ?thesis by simp
qed

lemma sound_solver_optimal:
  assumes "sound_solver glpk" and "2 \<le> k"
    and "glpk (sampled_problem (Variable k) x) = Inr sol"
    and "sol_status sol = optimal" and "sol_value sol = Finite v"
  shows "\<exists>cs. is_optimal k (sampled_problem (Variable k) x) cs \<and> v = cs ! 1"
proof -
  have "build_problem Accepts_empty (Variable k) x = Inr (sampled_problem (Variable k) x)"
    using assms(2) by (simp add: build_problem_sampled)
  with assms(1,3) have "sound_report k (sampled_problem (Variable k) x) sol"
    unfolding sound_solver_def by fastforce
  with assms(4,5) show ?thesis
    by (auto simp: sound_report_def objective_at_sampled_problem simp del: objective_at.simps)
qed

section \<open>Properties of the optimum\<close>

text \<open>
  Claim C5. Whatever the degree and the points, once the problem is built the all-zero
  coefficient vector satisfies every constraint of it. Hence an answer of the solver that
  means what it says is never infeasible, and an optimal one reports an objective value
  that is at least \<open>0\<close>.
\<close>

theorem zero_vector_feasible:
  assumes "build_problem cvx C x = Inr P"
  shows "feasible P (replicate (size_of C) 0) \<and>
         (\<forall>sol. sound_report (size_of C) P sol \<longrightarrow>
            sol_status sol \<noteq> infeasible \<and>
            (sol_status sol = optimal \<longrightarrow> (\<exists>v. sol_value sol = Finite v \<and> 0 \<le> v)))"
proof -
  from build_problem_Inr [OF assms] have two: "2 \<le> size_of C" and P: "P = sampled_problem C x"
    by auto
  let ?z = "replicate (size_of C) (0::real)"
  have zero: "eval ?z (pol_entry C v) = 0" for v
    by (simp add: eval_pol_entry)
  have feas: "feasible P ?z"
    by (simp add: P feasible_sampled_problem zero)
  have obj: "objective_at P ?z = 0"
    using two by (simp add: P objective_at_sampled_problem del: objective_at.simps)
  have "sol_status sol \<noteq> infeasible \<and>
        (sol_status sol = optimal \<longrightarrow> (\<exists>v. sol_value sol = Finite v \<and> 0 \<le> v))"
    if s: "sound_report (size_of C) P sol" for sol
  proof (cases "sol_status sol")
    case optimal
    with s obtain cs where "is_optimal (size_of C) P cs" "sol_value sol = Finite (objective_at P cs)"
      by (auto simp: sound_report_def)
    moreover from this(1) feas have "objective_at P ?z \<le> objective_at P cs"
      unfolding is_optimal_def by simp
    ultimately show ?thesis using optimal obj by simp
  next
    case infeasible
    with s have "\<not> feasible P ?z" by (simp add: sound_report_def)
    with feas show ?thesis by simp
  qed simp_all
  with feas show ?thesis by blast
qed

text \<open>Degree 1 with the points \<open>1/2, -1/2\<close>, where the optimum is \<open>2\<close>.\<close>

theorem zero_vector_feasible_witness:
  "build_problem Refuses_empty (Variable 2) [1 / 2, - (1 / 2)] = Inr (sampled_problem (Variable 2) [1 / 2, - (1 / 2)]) \<and>
   feasible (sampled_problem (Variable 2) [1 / 2, - (1 / 2)]) [0, 0] \<and>
   sound_report 2 (sampled_problem (Variable 2) [1 / 2, - (1 / 2)])
     \<lparr>sol_status = optimal, sol_value = Finite 2, var_value = Some [0, 2]\<rparr> \<and>
   sol_status \<lparr>sol_status = optimal, sol_value = Finite 2, var_value = Some [0, 2]\<rparr> \<noteq> infeasible \<and>
   (\<exists>v. sol_value \<lparr>sol_status = optimal, sol_value = Finite 2, var_value = Some [0, 2]\<rparr> = Finite v
        \<and> 0 \<le> v)"
proof -
  let ?P = "sampled_problem (Variable 2) [1 / 2, - (1 / 2)]"
  let ?s = "\<lparr>sol_status = optimal, sol_value = Finite 2, var_value = Some [0, 2 :: real]\<rparr>"
  have b: "build_problem Refuses_empty (Variable 2) [1 / 2, - (1 / 2)] = Inr ?P"
    by (simp add: build_problem_sampled)
  have r: "sound_report 2 ?P ?s"
    using demo_optimal_2_2
    by (simp add: sound_report_def objective_at_sampled_problem del: objective_at.simps)
  have z: "replicate (size_of (Variable 2)) (0::real) = [0, 0]"
    by (simp add: eval_nat_numeral)
  from zero_vector_feasible [OF b] r z b show ?thesis by auto
qed

text \<open>
  Claim C6, as the code has it. Two runs from the same generator state with \<open>m1 \<le> m2\<close>
  samples share their first \<open>m1\<close> points, so the second problem has every constraint
  of the first and more: with a solver that means what it says, the optimum with \<open>m2\<close>
  samples is at most the optimum with \<open>m1\<close> samples.
\<close>

theorem more_samples_lower_optimum:
  assumes "sound_solver glpk" and "m1 \<le> m2"
    and "achieves cvx glpk n m1 w optimal (Finite v1)"
    and "achieves cvx glpk n m2 w optimal (Finite v2)"
  shows "v2 \<le> v1"
proof -
  let ?C = "Variable (nat (n + 1))"
  let ?x1 = "map (\<lambda>i. - 1 + 2 * random_state w i) [0..<nat m1]"
  let ?x2 = "map (\<lambda>i. - 1 + 2 * random_state w i) [0..<nat m2]"
  from achieves_run [OF assms(3)] obtain s1 where n1: "1 \<le> n"
    and s1: "glpk (sampled_problem ?C ?x1) = Inr s1" "sol_status s1 = optimal"
      "sol_value s1 = Finite v1" by auto
  from achieves_run [OF assms(4)] obtain s2
    where s2: "glpk (sampled_problem ?C ?x2) = Inr s2" "sol_status s2 = optimal"
      "sol_value s2 = Finite v2" by auto
  have k: "2 \<le> nat (n + 1)" using n1 by simp
  from sound_solver_optimal [OF assms(1) k s1] obtain cs1
    where o1: "is_optimal (nat (n + 1)) (sampled_problem ?C ?x1) cs1" and v1: "v1 = cs1 ! 1"
    by auto
  from sound_solver_optimal [OF assms(1) k s2] obtain cs2
    where o2: "is_optimal (nat (n + 1)) (sampled_problem ?C ?x2) cs2" and v2: "v2 = cs2 ! 1"
    by auto
  have sub: "set ?x1 \<subseteq> set ?x2" using assms(2) by auto
  have "feasible (sampled_problem ?C ?x2) cs2" "length cs2 = nat (n + 1)"
    using o2 by (simp_all add: is_optimal_def)
  then have "feasible (sampled_problem ?C ?x1) cs2"
    using sub unfolding feasible_sampled_problem by blast
  with o1 \<open>length cs2 = nat (n + 1)\<close>
  have "objective_at (sampled_problem ?C ?x1) cs2 \<le> objective_at (sampled_problem ?C ?x1) cs1"
    unfolding is_optimal_def by blast
  then show ?thesis
    by (simp add: v1 v2 objective_at_sampled_problem del: objective_at.simps)
qed

text \<open>Degree 1 on the demonstration generator: 2 samples give \<open>2\<close>, 4 samples give \<open>4/3\<close>.\<close>

theorem more_samples_lower_optimum_witness:
  "sound_solver demo_glpk \<and> (2::int) \<le> 4 \<and>
   achieves Refuses_empty demo_glpk 1 2 demo_world optimal (Finite 2) \<and>
   achieves Refuses_empty demo_glpk 1 4 demo_world optimal (Finite (4 / 3)) \<and>
   (4 / 3 :: real) \<le> 2"
  using more_samples_lower_optimum
      [OF demo_glpk_sound _ achieves_demo_1_2 [of Refuses_empty]
        achieves_demo_1_4 [of Refuses_empty]]
    demo_glpk_sound achieves_demo_1_2 [of Refuses_empty] achieves_demo_1_4 [of Refuses_empty]
  by simp

text \<open>
  Claim C6 as stated (the objective does not decrease when the sample count grows) fails
  there: the objective falls from \<open>2\<close> to \<open>4/3\<close>.
\<close>

theorem more_samples_counterexample:
  "sound_solver demo_glpk \<and>
   achieves Refuses_empty demo_glpk 1 2 demo_world optimal (Finite 2) \<and>
   achieves Refuses_empty demo_glpk 1 4 demo_world optimal (Finite (4 / 3)) \<and>
   achieves Accepts_empty demo_glpk 1 2 demo_world optimal (Finite 2) \<and>
   achieves Accepts_empty demo_glpk 1 4 demo_world optimal (Finite (4 / 3)) \<and>
   \<not> (2 :: real) \<le> 4 / 3"
  using demo_glpk_sound achieves_demo_1_2 achieves_demo_1_4 by simp

text \<open>Two more coefficients, both zero, leave the value at every point as it was.\<close>

lemma eval_pol_entry_padded:
  assumes "length cs = k"
  shows "eval (cs @ [0, 0]) (pol_entry (Variable (k + 2)) v) = eval cs (pol_entry (Variable k) v)"
proof -
  have "(\<Sum>i<k. (cs @ [0, 0]) ! i * v ^ i) = (\<Sum>i<k. cs ! i * v ^ i)"
    using assms by (intro sum.cong) (simp_all add: nth_append)
  moreover have "(cs @ [0, 0]) ! k = 0" "(cs @ [0, 0]) ! Suc k = 0"
    using assms by (simp_all add: nth_append)
  ultimately show ?thesis
    by (simp add: eval_pol_entry)
qed

text \<open>
  Claim C7. Two runs from the same generator state with the same sample count draw the
  same points. With a solver that means what it says, the optimum at degree \<open>n + 2\<close> is
  at least the optimum at degree \<open>n\<close>: the optimal vector of degree \<open>n\<close>, padded with
  two zeros, is feasible at degree \<open>n + 2\<close> and has the same objective.
\<close>

theorem higher_degree_higher_optimum:
  assumes "sound_solver glpk"
    and "achieves cvx glpk n m w optimal (Finite v)"
    and "achieves cvx glpk (n + 2) m w optimal (Finite v')"
  shows "v \<le> v'"
proof -
  let ?k = "nat (n + 1)"
  let ?x = "map (\<lambda>i. - 1 + 2 * random_state w i) [0..<nat m]"
  from achieves_run [OF assms(2)] obtain s where n1: "1 \<le> n"
    and s: "glpk (sampled_problem (Variable ?k) ?x) = Inr s" "sol_status s = optimal"
      "sol_value s = Finite v" by auto
  have k': "nat (n + 2 + 1) = ?k + 2" using n1 by simp
  from achieves_run [OF assms(3)] obtain s'
    where s': "glpk (sampled_problem (Variable (?k + 2)) ?x) = Inr s'" "sol_status s' = optimal"
      "sol_value s' = Finite v'" unfolding k' by auto
  have k: "2 \<le> ?k" using n1 by simp
  then have k2: "2 \<le> ?k + 2" by simp
  from sound_solver_optimal [OF assms(1) k s] obtain cs
    where o: "is_optimal ?k (sampled_problem (Variable ?k) ?x) cs" and v: "v = cs ! 1"
    by auto
  from sound_solver_optimal [OF assms(1) k2 s'] obtain cs'
    where o': "is_optimal (?k + 2) (sampled_problem (Variable (?k + 2)) ?x) cs'"
      and v': "v' = cs' ! 1"
    by auto
  from o have len: "length cs = ?k" and feas: "feasible (sampled_problem (Variable ?k) ?x) cs"
    by (simp_all add: is_optimal_def)
  let ?ds = "cs @ [0, 0]"
  have "feasible (sampled_problem (Variable (?k + 2)) ?x) ?ds"
    using feas unfolding feasible_sampled_problem eval_pol_entry_padded [OF len] .
  moreover have "length ?ds = ?k + 2" using len by simp
  ultimately have "objective_at (sampled_problem (Variable (?k + 2)) ?x) ?ds
      \<le> objective_at (sampled_problem (Variable (?k + 2)) ?x) cs'"
    using o' unfolding is_optimal_def by blast
  moreover have "?ds ! 1 = cs ! 1" using len n1 by (simp add: nth_append)
  ultimately show ?thesis
    by (simp add: v v' objective_at_sampled_problem del: objective_at.simps)
qed

text \<open>Four samples on the demonstration generator: degree 1 gives \<open>4/3\<close>, degree 3 gives \<open>4\<close>.\<close>

theorem higher_degree_higher_optimum_witness:
  "sound_solver demo_glpk \<and>
   achieves Refuses_empty demo_glpk 1 4 demo_world optimal (Finite (4 / 3)) \<and>
   achieves Refuses_empty demo_glpk (1 + 2) 4 demo_world optimal (Finite 4) \<and> (4 / 3 :: real) \<le> 4"
proof -
  have a3: "achieves Refuses_empty demo_glpk (1 + 2) 4 demo_world optimal (Finite 4)"
    using achieves_demo_3_4 [of Refuses_empty] by simp
  from higher_degree_higher_optimum [OF demo_glpk_sound achieves_demo_1_4 [of Refuses_empty] a3]
    demo_glpk_sound achieves_demo_1_4 [of Refuses_empty] a3
  show ?thesis by simp
qed

section \<open>The problem that a call builds and what the call returns\<close>

text \<open>
  Claim C2, as the code has it. For a degree \<open>n \<ge> 1\<close> and \<open>m \<ge> 1\<close> samples the call
  builds a problem over the \<open>n + 1\<close> entries of its variable, with \<open>2 * m\<close>
  constraints: constraint \<open>j\<close> bounds the polynomial at point \<open>j\<close> below by \<open>-1\<close>,
  constraint \<open>m + j\<close> bounds it above by \<open>1\<close>; the objective is the entry \<open>1\<close> of
  the variable. The number of constraints does not depend on the degree.
\<close>

theorem constructed_problem_shape:
  assumes "1 \<le> n" and "1 \<le> m"
  shows "\<exists>C x w1 P.
           draw_points cvx n (PyInt m) w = (Inr (C, x), w1) \<and> build_problem cvx C x = Inr P \<and>
           size_of C = nat (n + 1) \<and> length x = nat m \<and>
           unknowns P = (\<lambda>i. (C, i)) ` {..<nat (n + 1)} \<and> card (unknowns P) = nat (n + 1) \<and>
           length (constraints P) = 2 * nat m \<and>
           (\<forall>j<nat m. \<forall>cs. length cs = nat (n + 1) \<longrightarrow>
              satisfies cs (constraints P ! j) = (- 1 \<le> (\<Sum>i\<le>nat n. cs ! i * (x ! j) ^ i)) \<and>
              satisfies cs (constraints P ! (nat m + j)) =
                ((\<Sum>i\<le>nat n. cs ! i * (x ! j) ^ i) \<le> 1)) \<and>
           objective P = Maximize (Index C 1) \<and> (\<forall>cs. objective_at P cs = cs ! 1)"
proof -
  let ?C = "Variable (nat (n + 1))"
  let ?x = "map (\<lambda>i. - 1 + 2 * random_state w i) [0..<nat m]"
  let ?P = "sampled_problem ?C ?x"
  have n0: "0 \<le> n" and m0: "0 \<le> m" using assms by simp_all
  have d: "draw_points cvx n (PyInt m) w =
             (Inr (?C, ?x), w\<lparr>random_state := \<lambda>i. random_state w (i + nat m)\<rparr>)"
    by (rule draw_points_int [OF n0 m0])
  have two: "2 \<le> size_of ?C" using assms(1) by simp
  have ne: "?x \<noteq> []" using assms(2) by simp
  have b: "build_problem cvx ?C ?x = Inr ?P"
    using two ne by (simp add: build_problem_sampled)
  have u: "unknowns ?P = (\<lambda>i. (?C, i)) ` {..<nat (n + 1)}"
    using unknowns_sampled_problem [OF two ne] by simp
  have "inj_on (\<lambda>i. (?C, i)) {..<nat (n + 1)}" by (simp add: inj_on_def)
  then have c: "card (unknowns ?P) = nat (n + 1)"
    unfolding u by (simp add: card_image)
  have len: "length (constraints ?P) = 2 * nat m"
    by (simp add: sampled_problem_def)
  have deg: "{..<size_of ?C} = {..nat n}" using n0 by (auto simp: nat_add_distrib)
  have val: "eval cs (pol_entry ?C v) = (\<Sum>i\<le>nat n. cs ! i * v ^ i)" for cs v
    unfolding eval_pol_entry deg ..
  have lower: "satisfies cs (constraints ?P ! j) = (- 1 \<le> (\<Sum>i\<le>nat n. cs ! i * (?x ! j) ^ i))"
    if "j < nat m" for j cs
    using that by (simp add: sampled_problem_def nth_append val del: upt_Suc)
  have upper: "satisfies cs (constraints ?P ! (nat m + j)) =
                 ((\<Sum>i\<le>nat n. cs ! i * (?x ! j) ^ i) \<le> 1)"
    if "j < nat m" for j cs
    using that by (simp add: sampled_problem_def nth_append val del: upt_Suc)
  have obj: "objective_at ?P cs = cs ! 1" for cs
    by (rule objective_at_sampled_problem)
  have mx: "objective ?P = Maximize (Index ?C 1)"
    by (simp add: sampled_problem_def)
  have "size_of ?C = nat (n + 1)" "length ?x = nat m" by simp_all
  with d b u c len lower upper obj mx show ?thesis
    by (intro exI conjI) (assumption | blast)+
qed

text \<open>A call with two samples in the demonstration state.\<close>

lemma demo_draw:
  "0 \<le> n \<Longrightarrow>
   draw_points cvx n (PyInt 2) demo_world =
     (Inr (Variable (nat (n + 1)), [1 / 2, - (1 / 2)]),
      demo_world\<lparr>random_state := \<lambda>i. random_state demo_world (i + nat 2)\<rparr>)"
  using draw_points_int [of n 2 cvx demo_world] unfolding demo_points_2 by simp

lemma demo_stdout: "stdout demo_world = []"
  by (simp add: demo_world_def module_init_def np_random_seed_def fresh_process_def)

lemma demo_run:
  "solve_degree_n cvx glpk 1 (PyInt 2) verbose demo_world =
     (case glpk (sampled_problem (Variable 2) [1 / 2, - (1 / 2)]) of
        Inl e \<Rightarrow> (Inl e, demo_world\<lparr>random_state := \<lambda>i. random_state demo_world (i + nat 2)\<rparr>)
      | Inr sol \<Rightarrow>
          (Inr (var_value sol),
           demo_world\<lparr>random_state := \<lambda>i. random_state demo_world (i + nat 2),
             stdout := (if verbose then [PrintStatus (sol_status sol), PrintValue (sol_value sol)]
               else [])\<rparr>))"
proof -
  have d: "draw_points cvx 1 (PyInt 2) demo_world =
      (Inr (Variable 2, [1 / 2, - (1 / 2)]),
       demo_world\<lparr>random_state := \<lambda>i. random_state demo_world (i + nat 2)\<rparr>)"
    using demo_draw [where n = 1] by simp
  have b: "build_problem cvx (Variable 2) [1 / 2, - (1 / 2)] =
             Inr (sampled_problem (Variable 2) [1 / 2, - (1 / 2)])"
    by (simp add: build_problem_sampled)
  show ?thesis
    unfolding solve_degree_n_run [OF d b] by (simp add: demo_stdout split: sum.splits)
qed

text \<open>Degree 1 and two samples: 2 unknowns, 4 constraints, all met by the vector \<open>[0, 2]\<close>.\<close>

theorem constructed_problem_shape_witness:
  "\<exists>P. fst (draw_points Refuses_empty 1 (PyInt 2) demo_world) = Inr (Variable 2, [1 / 2, - (1 / 2)]) \<and>
        build_problem Refuses_empty (Variable 2) [1 / 2, - (1 / 2)] = Inr P \<and>
        card (unknowns P) = 2 \<and> length (constraints P) = 4 \<and>
        satisfies [0, 2] (constraints P ! 0) \<and> satisfies [0, 2] (constraints P ! 2) \<and>
        objective_at P [0, 2] = 2"
proof -
  obtain C x w1 P where d: "draw_points Refuses_empty 1 (PyInt 2) demo_world = (Inr (C, x), w1)"
    and b: "build_problem Refuses_empty C x = Inr P"
    and c: "card (unknowns P) = nat (1 + 1)" and l: "length (constraints P) = 2 * nat 2"
    and s: "\<forall>j<nat 2. \<forall>cs. length cs = nat (1 + 1) \<longrightarrow>
              satisfies cs (constraints P ! j) = (- 1 \<le> (\<Sum>i\<le>nat 1. cs ! i * (x ! j) ^ i)) \<and>
              satisfies cs (constraints P ! (nat 2 + j)) =
                ((\<Sum>i\<le>nat 1. cs ! i * (x ! j) ^ i) \<le> 1)"
    and obj: "\<forall>cs. objective_at P cs = cs ! 1"
    using constructed_problem_shape [where n = 1 and m = 2 and w = demo_world and cvx = Refuses_empty]
    by auto
  from d have C: "C = Variable 2" and x: "x = [1 / 2, - (1 / 2)]"
    using demo_draw [where n = 1 and cvx = Refuses_empty] by simp_all
  from s [rule_format, of 0 "[0, 2]"]
  have "satisfies [0, 2] (constraints P ! 0)" "satisfies [0, 2] (constraints P ! 2)"
    by (simp_all add: x)
  moreover have "objective_at P [0, 2] = 2" using obj by simp
  moreover have "fst (draw_points Refuses_empty 1 (PyInt 2) demo_world) = Inr (Variable 2, [1 / 2, - (1 / 2)])"
    using demo_draw [where n = 1 and cvx = Refuses_empty] by simp
  ultimately show ?thesis using b c l C x by auto
qed

text \<open>
  Claim C2 as stated includes the degree \<open>0\<close>. There the variable has one entry, the
  objective \<^verbatim>\<open>C[1]\<close> raises IndexError, and no problem is built.
\<close>

lemma degree_zero_run:
  "fst (draw_points cvx 0 (PyInt 2) demo_world) = Inr (Variable 1, [1 / 2, - (1 / 2)]) \<and>
   build_problem cvx (Variable 1) [1 / 2, - (1 / 2)] = Inl IndexError \<and>
   fst (solve_degree_n cvx demo_glpk 0 (PyInt 2) True demo_world) = Inl IndexError"
proof -
  have d: "draw_points cvx 0 (PyInt 2) demo_world =
      (Inr (Variable 1, [1 / 2, - (1 / 2)]),
       demo_world\<lparr>random_state := \<lambda>i. random_state demo_world (i + nat 2)\<rparr>)"
    using demo_draw [where n = 0] by simp
  have b: "build_problem cvx (Variable 1) [1 / 2, - (1 / 2)] = Inl IndexError"
    by (simp add: build_problem_def pol_calc_vector index_one)
  from d b show ?thesis by (simp add: solve_degree_n_def)
qed

theorem degree_zero_counterexample:
  "fst (draw_points Refuses_empty 0 (PyInt 2) demo_world) =
     Inr (Variable 1, [1 / 2, - (1 / 2)]) \<and>
   build_problem Refuses_empty (Variable 1) [1 / 2, - (1 / 2)] = Inl IndexError \<and>
   fst (solve_degree_n Refuses_empty demo_glpk 0 (PyInt 2) True demo_world) = Inl IndexError \<and>
   fst (draw_points Accepts_empty 0 (PyInt 2) demo_world) =
     Inr (Variable 1, [1 / 2, - (1 / 2)]) \<and>
   build_problem Accepts_empty (Variable 1) [1 / 2, - (1 / 2)] = Inl IndexError \<and>
   fst (solve_degree_n Accepts_empty demo_glpk 0 (PyInt 2) True demo_world) = Inl IndexError"
  using degree_zero_run [of Refuses_empty] degree_zero_run [of Accepts_empty] by simp

text \<open>
  Claim C1, as the code has it. For a degree \<open>n \<ge> 1\<close> and \<open>m \<ge> 1\<close> samples the call
  returns the value that the solver left in the variable, and nothing else: the status
  and the objective value are printed, in this order, when \<^verbatim>\<open>verbose\<close> is set, and are
  not part of the result. An exception of the solver is passed on.
\<close>

theorem solve_degree_n_returns_vector:
  assumes "1 \<le> n" and "1 \<le> m"
  shows "\<exists>C x w1 P.
           draw_points cvx n (PyInt m) w = (Inr (C, x), w1) \<and> build_problem cvx C x = Inr P \<and>
           solve_degree_n cvx glpk n (PyInt m) verbose w =
             (case glpk P of
                Inl e \<Rightarrow> (Inl e, w1)
              | Inr sol \<Rightarrow>
                  (Inr (var_value sol),
                   w1\<lparr>stdout := stdout w1 @
                      (if verbose
                       then [PrintStatus (sol_status sol), PrintValue (sol_value sol)]
                       else [])\<rparr>))"
proof -
  let ?C = "Variable (nat (n + 1))"
  let ?x = "map (\<lambda>i. - 1 + 2 * random_state w i) [0..<nat m]"
  have n0: "0 \<le> n" and m0: "0 \<le> m" using assms by simp_all
  have d: "draw_points cvx n (PyInt m) w =
             (Inr (?C, ?x), w\<lparr>random_state := \<lambda>i. random_state w (i + nat m)\<rparr>)"
    by (rule draw_points_int [OF n0 m0])
  have b: "build_problem cvx ?C ?x = Inr (sampled_problem ?C ?x)"
    using assms by (simp add: build_problem_sampled)
  from d b solve_degree_n_run [OF d b, of glpk verbose] show ?thesis by blast
qed

text \<open>Degree 1 and two samples, verbose: the vector is returned, status and value are printed.\<close>

theorem solve_degree_n_returns_vector_witness:
  "fst (solve_degree_n Refuses_empty demo_glpk 1 (PyInt 2) True demo_world) = Inr (Some [0, 2]) \<and>
   stdout (snd (solve_degree_n Refuses_empty demo_glpk 1 (PyInt 2) True demo_world)) =
     [PrintStatus optimal, PrintValue (Finite 2)]"
proof -
  obtain C x w1 P where d: "draw_points Refuses_empty 1 (PyInt 2) demo_world = (Inr (C, x), w1)"
    and b: "build_problem Refuses_empty C x = Inr P"
    and r: "solve_degree_n Refuses_empty demo_glpk 1 (PyInt 2) True demo_world =
             (case demo_glpk P of
                Inl e \<Rightarrow> (Inl e, w1)
              | Inr sol \<Rightarrow>
                  (Inr (var_value sol),
                   w1\<lparr>stdout := stdout w1 @
                      (if True
                       then [PrintStatus (sol_status sol), PrintValue (sol_value sol)]
                       else [])\<rparr>))"
    using solve_degree_n_returns_vector
      [where n = 1 and m = 2 and w = demo_world and glpk = demo_glpk and verbose = True
        and cvx = Refuses_empty]
    by auto
  from d have C: "C = Variable 2" and x: "x = [1 / 2, - (1 / 2)]"
    and w1: "stdout w1 = []"
    using demo_draw [where n = 1] by (auto simp: demo_stdout)
  from b have P: "P = sampled_problem (Variable 2) [1 / 2, - (1 / 2)]"
    unfolding C x by (simp add: build_problem_sampled)
  show ?thesis
    unfolding r by (simp add: P demo_glpk_def w1)
qed

text \<open>
  Claim C1 as stated (the result is a triple of vector, status and objective value) fails:
  two solvers that report different statuses and objective values, and the same vector,
  give the same result, which is the vector alone.
\<close>

theorem returned_value_counterexample:
  "solve_degree_n Refuses_empty demo_glpk 1 (PyInt 2) False demo_world =
     solve_degree_n Refuses_empty demo_glpk_inaccurate 1 (PyInt 2) False demo_world \<and>
   fst (solve_degree_n Refuses_empty demo_glpk 1 (PyInt 2) False demo_world) = Inr (Some [0, 2]) \<and>
   stdout (snd (solve_degree_n Refuses_empty demo_glpk 1 (PyInt 2) True demo_world)) =
     [PrintStatus optimal, PrintValue (Finite 2)] \<and>
   stdout (snd (solve_degree_n Refuses_empty demo_glpk_inaccurate 1 (PyInt 2) True demo_world)) =
     [PrintStatus other_status, PrintValue (Finite 0)] \<and>
   solve_degree_n Accepts_empty demo_glpk 1 (PyInt 2) False demo_world =
     solve_degree_n Accepts_empty demo_glpk_inaccurate 1 (PyInt 2) False demo_world \<and>
   fst (solve_degree_n Accepts_empty demo_glpk 1 (PyInt 2) False demo_world) = Inr (Some [0, 2]) \<and>
   stdout (snd (solve_degree_n Accepts_empty demo_glpk 1 (PyInt 2) True demo_world)) =
     [PrintStatus optimal, PrintValue (Finite 2)] \<and>
   stdout (snd (solve_degree_n Accepts_empty demo_glpk_inaccurate 1 (PyInt 2) True demo_world)) =
     [PrintStatus other_status, PrintValue (Finite 0)]"
  by (simp add: demo_run demo_glpk_def demo_glpk_inaccurate_def)

section \<open>Arguments that make the call raise\<close>

lemma negative_dimension_raises:
  "n < - 1 \<Longrightarrow> solve_degree_n cvx glpk n n_sample verbose w = (Inl ValueError, w)"
  by (simp add: solve_degree_n_def draw_points_def cp_Variable_def)

lemma refused_empty_raises:
  assumes "n < 0 \<or> n_sample = PyInt 0"
  shows "solve_degree_n Refuses_empty glpk n n_sample verbose w = (Inl ValueError, w)"
proof (cases "n < 0")
  case True
  then have "n + 1 < 0 \<or> n + 1 = 0" by arith
  then have "cp_Variable Refuses_empty (n + 1) = Inl ValueError"
    by (auto simp: cp_Variable_def)
  then show ?thesis
    by (simp add: solve_degree_n_def draw_points_def)
next
  case False
  with assms have ns: "n_sample = PyInt 0" by simp
  have d: "draw_points Refuses_empty n (PyInt 0) w = (Inr (Variable (nat (n + 1)), []), w)"
    using False by (simp add: draw_points_int)
  have "build_problem Refuses_empty (Variable (nat (n + 1))) [] = Inl ValueError"
    using False by (simp add: build_problem_def pol_calc_empty_points)
  with d ns show ?thesis by (simp add: solve_degree_n_def)
qed

lemma accepted_no_entries_raises:
  assumes "0 \<le> m"
  shows "solve_degree_n Accepts_empty glpk (- 1) (PyInt m) verbose w =
           (Inl TypeError, w\<lparr>random_state := \<lambda>i. random_state w (i + nat m)\<rparr>)"
proof -
  have d: "draw_points Accepts_empty (- 1) (PyInt m) w =
      (Inr (Variable 0, map (\<lambda>i. - 1 + 2 * random_state w i) [0..<nat m]),
       w\<lparr>random_state := \<lambda>i. random_state w (i + nat m)\<rparr>)"
    using assms by (simp add: draw_points_def cp_Variable_def np_random_uniform_def)
  have "build_problem Accepts_empty (Variable 0) x = Inl TypeError" for x
    by (simp add: build_problem_def pol_calc_no_entries)
  with d show ?thesis by (simp add: solve_degree_n_def)
qed

lemma accepted_degree_zero_no_points:
  "solve_degree_n Accepts_empty glpk 0 (PyInt 0) verbose w = (Inl IndexError, w)"
proof -
  have d: "draw_points Accepts_empty 0 (PyInt 0) w = (Inr (Variable 1, []), w)"
    by (simp add: draw_points_int)
  have "build_problem Accepts_empty (Variable 1) [] = Inl IndexError"
    by (simp add: build_problem_def pol_calc_vector index_one)
  with d show ?thesis by (simp add: solve_degree_n_def)
qed

lemma accepted_no_points_run:
  assumes "1 \<le> n"
  shows "solve_degree_n Accepts_empty glpk n (PyInt 0) verbose w =
     (case glpk \<lparr>objective = Maximize (Index (Variable (nat (n + 1))) 1), constraints = []\<rparr> of
        Inl e \<Rightarrow> (Inl e, w)
      | Inr sol \<Rightarrow>
          (Inr (var_value sol),
           w\<lparr>stdout := stdout w @
              (if verbose then [PrintStatus (sol_status sol), PrintValue (sol_value sol)]
               else [])\<rparr>))"
proof -
  have d: "draw_points Accepts_empty n (PyInt 0) w = (Inr (Variable (nat (n + 1)), []), w)"
    using assms by (simp add: draw_points_int)
  have b: "build_problem Accepts_empty (Variable (nat (n + 1))) [] =
      Inr \<lparr>objective = Maximize (Index (Variable (nat (n + 1))) 1), constraints = []\<rparr>"
    using assms by (simp add: build_problem_sampled sampled_problem_def)
  show ?thesis by (rule solve_degree_n_run [OF d b])
qed

text \<open>
  Claim C4. The default of \<^verbatim>\<open>n_sample\<close> is the float \<^verbatim>\<open>1e4\<close>, not the int
  \<^verbatim>\<open>10000\<close>: a call that leaves \<^verbatim>\<open>n_sample\<close> out never draws a point. numpy
  refuses the float size with TypeError (unless cvxpy has refused the dimension of the
  variable with ValueError before), and the state is unchanged.
\<close>

theorem default_n_sample_raises:
  "solve_degree_n cvx glpk n n_sample_default verbose w =
     (Inl (if n < - 1 \<or> (n = - 1 \<and> cvx = Refuses_empty) then ValueError else TypeError), w)"
  by (simp add: solve_degree_n_def draw_points_def cp_Variable_def np_random_uniform_def
      n_sample_default_def)

text \<open>
  Claim C9, as the code has it. The notebook checks no argument; a malformed input is
  signalled only where cvxpy refuses it. A degree below \<open>-1\<close> always ends in ValueError
  with the state unchanged. A degree of \<open>-1\<close> or a sample count of zero does so on a
  cvxpy that refuses empty shapes. On a cvxpy that accepts them, degree \<open>-1\<close> raises
  TypeError after the points were drawn, degree \<open>0\<close> without samples raises IndexError,
  and a degree \<open>n \<ge> 1\<close> without samples hands a problem without constraints to the
  solver and returns its answer.
\<close>

theorem malformed_input_signals:
  "(n < - 1 \<longrightarrow> solve_degree_n cvx glpk n n_sample verbose w = (Inl ValueError, w)) \<and>
   (n < 0 \<or> n_sample = PyInt 0 \<longrightarrow>
      solve_degree_n Refuses_empty glpk n n_sample verbose w = (Inl ValueError, w)) \<and>
   (0 \<le> m \<longrightarrow>
      solve_degree_n Accepts_empty glpk (- 1) (PyInt m) verbose w =
        (Inl TypeError, w\<lparr>random_state := \<lambda>i. random_state w (i + nat m)\<rparr>)) \<and>
   solve_degree_n Accepts_empty glpk 0 (PyInt 0) verbose w = (Inl IndexError, w) \<and>
   (1 \<le> n \<longrightarrow>
      solve_degree_n Accepts_empty glpk n (PyInt 0) verbose w =
        (case glpk \<lparr>objective = Maximize (Index (Variable (nat (n + 1))) 1),
                     constraints = []\<rparr> of
           Inl e \<Rightarrow> (Inl e, w)
         | Inr sol \<Rightarrow>
             (Inr (var_value sol),
              w\<lparr>stdout := stdout w @
                 (if verbose then [PrintStatus (sol_status sol), PrintValue (sol_value sol)]
                  else [])\<rparr>)))"
proof (intro conjI impI)
  show "solve_degree_n cvx glpk n n_sample verbose w = (Inl ValueError, w)" if "n < - 1"
    using that by (rule negative_dimension_raises)
  show "solve_degree_n Refuses_empty glpk n n_sample verbose w = (Inl ValueError, w)"
    if "n < 0 \<or> n_sample = PyInt 0"
    using that by (rule refused_empty_raises)
  show "solve_degree_n Accepts_empty glpk (- 1) (PyInt m) verbose w =
        (Inl TypeError, w\<lparr>random_state := \<lambda>i. random_state w (i + nat m)\<rparr>)" if "0 \<le> m"
    using that by (rule accepted_no_entries_raises)
  show "solve_degree_n Accepts_empty glpk 0 (PyInt 0) verbose w = (Inl IndexError, w)"
    by (rule accepted_degree_zero_no_points)
  show "solve_degree_n Accepts_empty glpk n (PyInt 0) verbose w =
        (case glpk \<lparr>objective = Maximize (Index (Variable (nat (n + 1))) 1),
                     constraints = []\<rparr> of
           Inl e \<Rightarrow> (Inl e, w)
         | Inr sol \<Rightarrow>
             (Inr (var_value sol),
              w\<lparr>stdout := stdout w @
                 (if verbose then [PrintStatus (sol_status sol), PrintValue (sol_value sol)]
                  else [])\<rparr>))" if "1 \<le> n"
    using that by (rule accepted_no_points_run)
qed

text \<open>
  Degree \<open>-2\<close>; degree \<open>-1\<close> and degree \<open>2\<close> without samples on a cvxpy that refuses
  empty shapes; the same two on a cvxpy that accepts them.
\<close>

theorem malformed_input_signals_witness:
  "solve_degree_n Accepts_empty demo_glpk (- 2) (PyInt 5) True demo_world =
     (Inl ValueError, demo_world) \<and>
   solve_degree_n Refuses_empty demo_glpk (- 1) (PyInt 5) True demo_world =
     (Inl ValueError, demo_world) \<and>
   solve_degree_n Refuses_empty demo_glpk 2 (PyInt 0) True demo_world =
     (Inl ValueError, demo_world) \<and>
   fst (solve_degree_n Accepts_empty demo_glpk (- 1) (PyInt 5) True demo_world) = Inl TypeError \<and>
   fst (solve_degree_n Accepts_empty demo_glpk_unbounded 2 (PyInt 0) True demo_world) = Inr None"
  using malformed_input_signals
      [where n = "- 2" and cvx = Accepts_empty and glpk = demo_glpk and n_sample = "PyInt 5"
        and verbose = True and w = demo_world and m = 5]
    malformed_input_signals
      [where n = "- 1" and cvx = Refuses_empty and glpk = demo_glpk and n_sample = "PyInt 5"
        and verbose = True and w = demo_world and m = 5]
    malformed_input_signals
      [where n = 2 and cvx = Refuses_empty and glpk = demo_glpk and n_sample = "PyInt 0"
        and verbose = True and w = demo_world and m = 5]
    malformed_input_signals
      [where n = 2 and cvx = Accepts_empty and glpk = demo_glpk_unbounded
        and n_sample = "PyInt 0" and verbose = True and w = demo_world and m = 5]
  by (simp add: demo_glpk_unbounded_def)

text \<open>
  Claim C9 as stated fails on a cvxpy that accepts empty shapes. With degree \<open>2\<close> and no
  samples the call returns normally: the solver gets a problem without constraints, for
  which unbounded is the sound answer, the status is printed and None is returned. With
  degree \<open>-1\<close> and five samples the call raises TypeError only after the generator has
  advanced.
\<close>

theorem malformed_input_counterexample:
  "fst (solve_degree_n Accepts_empty demo_glpk_unbounded 2 (PyInt 0) True demo_world) =
     Inr None \<and>
   stdout (snd (solve_degree_n Accepts_empty demo_glpk_unbounded 2 (PyInt 0) True demo_world)) =
     [PrintStatus unbounded, PrintValue PosInf] \<and>
   sound_report 3 \<lparr>objective = Maximize (Index (Variable 3) 1), constraints = []\<rparr>
     \<lparr>sol_status = unbounded, sol_value = PosInf, var_value = None\<rparr> \<and>
   fst (solve_degree_n Accepts_empty demo_glpk (- 1) (PyInt 5) True demo_world) =
     Inl TypeError \<and>
   random_state demo_world 0 = 3 / 4 \<and>
   random_state (snd (solve_degree_n Accepts_empty demo_glpk (- 1) (PyInt 5) True demo_world)) 0 =
     1 / 4"
proof -
  have run: "solve_degree_n Accepts_empty demo_glpk_unbounded 2 (PyInt 0) True demo_world =
      (Inr None, demo_world\<lparr>stdout := [PrintStatus unbounded, PrintValue PosInf]\<rparr>)"
    using accepted_no_points_run [of 2 demo_glpk_unbounded True demo_world]
    by (simp add: demo_glpk_unbounded_def demo_stdout)
  have "\<exists>cs. length cs = 3 \<and>
          feasible \<lparr>objective = Maximize (Index (Variable 3) 1), constraints = []\<rparr> cs \<and>
          b < objective_at \<lparr>objective = Maximize (Index (Variable 3) 1), constraints = []\<rparr> cs"
    for b :: real
    by (rule exI [of _ "[0, b + 1, 0]"]) (simp add: feasible_def)
  then have rep: "sound_report 3 \<lparr>objective = Maximize (Index (Variable 3) 1), constraints = []\<rparr>
     \<lparr>sol_status = unbounded, sol_value = PosInf, var_value = None\<rparr>"
    unfolding sound_report_def by simp
  have raise: "solve_degree_n Accepts_empty demo_glpk (- 1) (PyInt 5) True demo_world =
      (Inl TypeError, demo_world\<lparr>random_state := \<lambda>i. random_state demo_world (i + nat 5)\<rparr>)"
    by (rule accepted_no_entries_raises) simp
  have before: "random_state demo_world 0 = 3 / 4"
    by (simp add: demo_world_rng demo_rng_values)
  have after: "random_state demo_world (0 + nat 5) = 1 / 4"
    by (simp add: demo_world_rng demo_rng_def)
  from run rep before after show ?thesis
    unfolding raise by simp
qed

section \<open>The generator across processes and across calls\<close>

lemma module_init_fresh:
  "module_init mt (fresh_process e) = \<lparr>random_state = mt 1234, stdout = []\<rparr>"
  by (simp add: module_init_def np_random_seed_def fresh_process_def)

text \<open>
  Claim C8. A process that loads the module, which seeds the generator with 1234, and then
  calls with degree \<open>n \<ge> 1\<close> and \<open>m \<ge> 1\<close> samples draws the first \<open>m\<close> variates of the
  stream of seed 1234, whatever state its generator started in; the result, the output
  and the final state of the call are those of the solver on the problem of these
  points. Two such runs therefore draw the same points and give the same result.
\<close>

theorem process_runs_agree:
  assumes "1 \<le> n" and "1 \<le> m"
  shows "draw_points cvx n (PyInt m) (module_init mt (fresh_process e)) =
           (Inr (Variable (nat (n + 1)), map (\<lambda>i. - 1 + 2 * mt 1234 i) [0..<nat m]),
            \<lparr>random_state = \<lambda>i. mt 1234 (i + nat m), stdout = []\<rparr>) \<and>
         solve_degree_n cvx glpk n (PyInt m) verbose (module_init mt (fresh_process e)) =
           (case glpk (sampled_problem (Variable (nat (n + 1)))
                         (map (\<lambda>i. - 1 + 2 * mt 1234 i) [0..<nat m])) of
              Inl err \<Rightarrow>
                (Inl err, \<lparr>random_state = \<lambda>i. mt 1234 (i + nat m), stdout = []\<rparr>)
            | Inr sol \<Rightarrow>
                (Inr (var_value sol),
                 \<lparr>random_state = \<lambda>i. mt 1234 (i + nat m),
                  stdout = (if verbose
                            then [PrintStatus (sol_status sol), PrintValue (sol_value sol)]
                            else [])\<rparr>)) \<and>
         draw_points cvx n (PyInt m) (module_init mt (fresh_process e)) =
           draw_points cvx n (PyInt m) (module_init mt (fresh_process e')) \<and>
         solve_degree_n cvx glpk n (PyInt m) verbose (module_init mt (fresh_process e)) =
           solve_degree_n cvx glpk n (PyInt m) verbose (module_init mt (fresh_process e'))"
proof -
  let ?w = "\<lparr>random_state = mt 1234, stdout = []\<rparr>"
  let ?C = "Variable (nat (n + 1))"
  let ?x = "map (\<lambda>i. - 1 + 2 * mt 1234 i) [0..<nat m]"
  let ?w1 = "\<lparr>random_state = \<lambda>i. mt 1234 (i + nat m), stdout = []\<rparr>"
  have n0: "0 \<le> n" and m0: "0 \<le> m" using assms by simp_all
  have d: "draw_points cvx n (PyInt m) ?w = (Inr (?C, ?x), ?w1)"
    using draw_points_int [OF n0 m0, of cvx ?w] by simp
  have b: "build_problem cvx ?C ?x = Inr (sampled_problem ?C ?x)"
    using assms by (simp add: build_problem_sampled)
  have r: "solve_degree_n cvx glpk n (PyInt m) verbose ?w =
           (case glpk (sampled_problem ?C ?x) of
              Inl err \<Rightarrow> (Inl err, ?w1)
            | Inr sol \<Rightarrow>
                (Inr (var_value sol),
                 \<lparr>random_state = \<lambda>i. mt 1234 (i + nat m),
                  stdout = (if verbose
                            then [PrintStatus (sol_status sol), PrintValue (sol_value sol)]
                            else [])\<rparr>))"
    unfolding solve_degree_n_run [OF d b] by (simp split: sum.splits)
  show ?thesis
    unfolding module_init_fresh using d r by simp
qed

text \<open>
  Degree 1 and two samples on the demonstration stream, from two different initial
  states of the generator.
\<close>

theorem process_runs_agree_witness:
  "fst (draw_points Refuses_empty 1 (PyInt 2) (module_init demo_mt (fresh_process (\<lambda>i. 0)))) =
     Inr (Variable 2, [1 / 2, - (1 / 2)]) \<and>
   fst (solve_degree_n Refuses_empty demo_glpk 1 (PyInt 2) True
          (module_init demo_mt (fresh_process (\<lambda>i. 0)))) = Inr (Some [0, 2]) \<and>
   fst (solve_degree_n Refuses_empty demo_glpk 1 (PyInt 2) True
          (module_init demo_mt (fresh_process (\<lambda>i. 1)))) = Inr (Some [0, 2])"
proof -
  have pts: "map (\<lambda>i. - 1 + 2 * demo_mt 1234 i) [0..<nat 2] = [1 / 2, - (1 / 2)]"
    using demo_points_2 by (simp add: demo_world_rng demo_mt_def)
  have g: "demo_glpk (sampled_problem (Variable (nat (1 + 1))) [1 / 2, - (1 / 2)]) =
      Inr \<lparr>sol_status = optimal, sol_value = Finite 2, var_value = Some [0, 2]\<rparr>"
    by (simp add: demo_glpk_def)
  have n: "(1::int) \<le> 1" and m: "(1::int) \<le> 2" by simp_all
  note run = process_runs_agree
      [where n = 1 and m = 2 and cvx = Refuses_empty and mt = demo_mt and glpk = demo_glpk
        and verbose = True, OF n m, unfolded pts g]
  from run [of "\<lambda>i. 0" "\<lambda>i. 1"] run [of "\<lambda>i. 1" "\<lambda>i. 0"]
  show ?thesis by simp
qed









end
